theory Spec2Isabelle
  imports Main "HOL-Library.Sublist"
begin

section \<open>Values, exceptions and effects\<close>

text \<open>
  The module \<open>kaggle_gcp.py\<close> is embedded function by function. Python values that the
  module inspects are \<open>pyval\<close>; exceptions are values of \<open>exn\<close>; a call that may raise
  and that logs or prints returns an \<open>io\<close> value: the outcome (\<open>Inl\<close> the exception
  raised, \<open>Inr\<close> the value returned) together with the effects in the order they happen.
\<close>

text \<open>
  Modelled from the spec: the enum \<open>GcpTarget\<close> is declared in \<open>kaggle_secrets\<close>, which
  is not among the sources. It has the three members the module names
  (\<open>GcpTarget.BIGQUERY\<close>, \<open>GcpTarget.GCS\<close>, \<open>GcpTarget.AUTOML\<close>); the display name
  \<open>target.service\<close> of a member is a parameter \<open>service\<close> of the functions that print it.
\<close>

datatype gcp_target = BIGQUERY | GCS | AUTOML

datatype exn =
    KeyError string
  | ConnectionError string
  | TypeError string
  | Forbidden string
  | OtherException string
  | RefreshError string exn

text \<open>
  \<open>RefreshError msg cause\<close> is \<open>raise RefreshError(msg) from cause\<close>.
  \<open>OtherException\<close> stands for every exception class derived from \<open>Exception\<close> that
  the module does not name.
\<close>

text \<open>
  Two functions of Python's library are parameters of the model, as the record \<open>py\<close>:
  \<open>str.upper\<close>, which follows the case tables of Unicode, and \<open>repr\<close> of a string,
  which chooses the quotes and escapes what is not printable. A string of the model is
  the UTF-8 text of the Python string.
\<close>

record python =
  str_upper :: "string \<Rightarrow> string"
  str_repr :: "string \<Rightarrow> string"

text \<open>
  \<open>str(e)\<close>: the message of the exception; for a \<open>KeyError\<close> the \<open>repr\<close> of the key.
\<close>

fun str_exn :: "python \<Rightarrow> exn \<Rightarrow> string" where
  "str_exn py (KeyError k) = str_repr py k"
| "str_exn py (ConnectionError m) = m"
| "str_exn py (TypeError m) = m"
| "str_exn py (Forbidden m) = m"
| "str_exn py (OtherException m) = m"
| "str_exn py (RefreshError m c) = m"

fun is_KeyError :: "exn \<Rightarrow> bool" where
  "is_KeyError (KeyError k) = True"
| "is_KeyError e = False"

fun is_ConnectionError :: "exn \<Rightarrow> bool" where
  "is_ConnectionError (ConnectionError m) = True"
| "is_ConnectionError e = False"


datatype event =
    Log_error string
  | Log_info string
  | Print string
  | New_KaggleKernelCredentials gcp_target
  | New_PublicBigqueryClient

text \<open>
  \<open>Log_error\<close>, \<open>Log_info\<close> and \<open>Print\<close> are the calls \<open>Log.error\<close>, \<open>Log.info\<close> and
  \<open>print\<close>. The two \<open>New_\<close> events record that the constructor of the class was entered.
\<close>

type_synonym 'a io = "(exn + 'a) \<times> event list"

definition io_return :: "'a \<Rightarrow> 'a io" where
  "io_return x = (Inr x, [])"

definition io_raise :: "exn \<Rightarrow> 'a io" where
  "io_raise e = (Inl e, [])"

definition io_emit :: "event list \<Rightarrow> unit io" where
  "io_emit evs = (Inr (), evs)"

definition io_bind :: "'a io \<Rightarrow> ('a \<Rightarrow> 'b io) \<Rightarrow> 'b io" where
  "io_bind m f =
     (case m of
        (Inl e, evs) \<Rightarrow> (Inl e, evs)
      | (Inr x, evs) \<Rightarrow> (case f x of (r, evs') \<Rightarrow> (r, evs @ evs')))"

definition io_when :: "bool \<Rightarrow> unit io \<Rightarrow> unit io" where
  "io_when b m = (if b then m else io_return ())"

section \<open>Strings and the environment\<close>

text \<open>
  On a string of ASCII characters \<open>str.upper\<close> changes the letters \<open>a\<close> to \<open>z\<close> and
  nothing else: that is \<open>ascii_upper\<close>. \<open>ascii_python\<close> is what the two library
  functions do on strings of ASCII letters, digits, spaces and punctuation other than
  quotes and the backslash; the examples, which use such strings only, are evaluated with it.
  \<open>str.split(sep)\<close> with a one-character separator: the pieces between the separators,
  empty pieces kept, one piece for the empty string.
\<close>

definition upper_char :: "char \<Rightarrow> char" where
  "upper_char c =
     (if 97 \<le> (of_char c :: nat) \<and> (of_char c :: nat) \<le> 122
      then char_of ((of_char c :: nat) - 32) else c)"

definition ascii_upper :: "string \<Rightarrow> string" where
  "ascii_upper s = map upper_char s"

definition ascii_python :: python where
  "ascii_python = \<lparr>str_upper = ascii_upper, str_repr = (\<lambda>s. [CHR 0x27] @ s @ [CHR 0x27])\<rparr>"

fun split :: "char \<Rightarrow> string \<Rightarrow> string list" where
  "split sep [] = [[]]"
| "split sep (c # cs) =
     (if c = sep then [] # split sep cs
      else (case split sep cs of
              [] \<Rightarrow> [[c]]
            | w # ws \<Rightarrow> (c # w) # ws))"

type_synonym environ = "string \<rightharpoonup> string"

datatype refresh_method = Vendor_refresh | Noop_refresh

record kaggle_kernel_credentials =
  target :: gcp_target
  token :: "string option"
  expiry :: "nat option"

datatype credentials =
    KaggleKernelCredentials kaggle_kernel_credentials
  | AnonymousCredentials refresh_method
  | CallerCredentials nat

datatype pyval = PyNone | PyStr string | PyCred credentials

text \<open>
  \<open>os.getenv(name)\<close> and \<open>os.environ.get(name)\<close>: the value, or \<open>None\<close>.
  \<open>truthy\<close> is Python's truth test, \<open>py_or\<close> the operator \<open>or\<close>, \<open>py_str\<close> the
  conversion of an f-string field (the text of an object that is neither \<open>None\<close> nor a
  string is not modelled and reads \<open><object>\<close>).
\<close>

definition getenv :: "environ \<Rightarrow> string \<Rightarrow> pyval" where
  "getenv environ name = (case environ name of None \<Rightarrow> PyNone | Some v \<Rightarrow> PyStr v)"

fun truthy :: "pyval \<Rightarrow> bool" where
  "truthy PyNone = False"
| "truthy (PyStr s) = (s \<noteq> [])"
| "truthy (PyCred c) = True"

definition py_or :: "pyval \<Rightarrow> pyval \<Rightarrow> pyval" where
  "py_or a b = (if truthy a then a else b)"

fun py_str :: "pyval \<Rightarrow> string" where
  "py_str PyNone = ''None''"
| "py_str (PyStr s) = s"
| "py_str (PyCred c) = ''<object>''"

type_synonym kwargs = "string \<rightharpoonup> pyval"

definition kwargs_get :: "kwargs \<Rightarrow> string \<Rightarrow> pyval" where
  "kwargs_get kw k = (case kw k of None \<Rightarrow> PyNone | Some v \<Rightarrow> v)"

section \<open>The integration registry\<close>

record kernel_integrations =
  integrations :: "gcp_target \<rightharpoonup> bool"

definition KernelIntegrations :: kernel_integrations where
  "KernelIntegrations = \<lparr>integrations = Map.empty\<rparr>"

definition add_integration :: "kernel_integrations \<Rightarrow> gcp_target \<Rightarrow> kernel_integrations" where
  "add_integration ki t = ki\<lparr>integrations := (integrations ki)(t \<mapsto> True)\<rparr>"

definition has_integration :: "kernel_integrations \<Rightarrow> gcp_target \<Rightarrow> bool" where
  "has_integration ki t = (integrations ki t \<noteq> None)"

definition has_bigquery :: "kernel_integrations \<Rightarrow> bool" where
  "has_bigquery ki = (integrations ki BIGQUERY \<noteq> None)"

definition has_gcs :: "kernel_integrations \<Rightarrow> bool" where
  "has_gcs ki = (integrations ki GCS \<noteq> None)"

definition has_automl :: "kernel_integrations \<Rightarrow> bool" where
  "has_automl ki = (integrations ki AUTOML \<noteq> None)"

text \<open>\<open>GcpTarget[name]\<close>: the member of that name, or \<open>KeyError\<close>.\<close>

definition target_name :: "gcp_target \<Rightarrow> string" where
  "target_name t = (case t of BIGQUERY \<Rightarrow> ''BIGQUERY'' | GCS \<Rightarrow> ''GCS'' | AUTOML \<Rightarrow> ''AUTOML'')"

definition GcpTarget_getitem :: "string \<Rightarrow> exn + gcp_target" where
  "GcpTarget_getitem name =
     (if name = ''BIGQUERY'' then Inr BIGQUERY
      else if name = ''GCS'' then Inr GCS
      else if name = ''AUTOML'' then Inr AUTOML
      else Inl (KeyError name))"

text \<open>
  The loop of \<open>get_integrations\<close>: each entry is looked up inside \<open>try\<close>; a \<open>KeyError\<close>
  is logged and the loop goes on; any other exception would leave the function.
\<close>

fun add_integrations ::
  "python \<Rightarrow> string list \<Rightarrow> kernel_integrations \<Rightarrow> kernel_integrations io" where
  "add_integrations py [] ki = io_return ki"
| "add_integrations py (integration # rest) ki =
     (case GcpTarget_getitem (str_upper py integration) of
        Inr t \<Rightarrow> add_integrations py rest (add_integration ki t)
      | Inl e \<Rightarrow>
          if is_KeyError e
          then io_bind (io_emit [Log_error (''Unknown integration target: '' @ str_exn py e)])
                 (\<lambda>_. add_integrations py rest ki)
          else io_raise e)"

definition get_integrations :: "python \<Rightarrow> environ \<Rightarrow> kernel_integrations io" where
  "get_integrations py environ =
     (let kernel_integrations_var = environ ''KAGGLE_KERNEL_INTEGRATIONS'';
          kernel_integrations = KernelIntegrations
      in case kernel_integrations_var of
           None \<Rightarrow> io_return kernel_integrations
         | Some v \<Rightarrow> add_integrations py (split CHR '':'' v) kernel_integrations)"

section \<open>The delegated credential\<close>

text \<open>
  \<open>UserSecretsClient\<close> belongs to \<open>kaggle_secrets\<close>. What \<open>refresh\<close> needs of it is the
  outcome of constructing the client and of each of its three token methods: a pair of
  token and expiry, or an exception. These outcomes are the parameter \<open>secrets\<close> of
  \<open>refresh\<close>. The constructor of the credential leaves token and expiry unset.
\<close>

record user_secrets_client =
  get_bigquery_access_token :: "exn + string \<times> nat"
  get_gcs_access_token :: "exn + string \<times> nat"
  get_automl_access_token :: "exn + string \<times> nat"

definition KaggleKernelCredentials_init :: "gcp_target \<Rightarrow> kaggle_kernel_credentials io" where
  "KaggleKernelCredentials_init t =
     io_bind (io_emit [New_KaggleKernelCredentials t])
       (\<lambda>_. io_return \<lparr>target = t, token = None, expiry = None\<rparr>)"

definition fetch_token :: "(exn + user_secrets_client) \<Rightarrow> gcp_target \<Rightarrow> exn + string \<times> nat" where
  "fetch_token secrets t =
     (case secrets of
        Inl e \<Rightarrow> Inl e
      | Inr client \<Rightarrow>
          (case t of
             BIGQUERY \<Rightarrow> get_bigquery_access_token client
           | GCS \<Rightarrow> get_gcs_access_token client
           | AUTOML \<Rightarrow> get_automl_access_token client))"

definition refresh ::
  "python \<Rightarrow> environ \<Rightarrow> (gcp_target \<Rightarrow> string) \<Rightarrow> (exn + user_secrets_client) \<Rightarrow>
   kaggle_kernel_credentials \<Rightarrow> kaggle_kernel_credentials \<times> unit io" where
  "refresh py environ service secrets self =
     (case fetch_token secrets (target self) of
        Inr (tok, exp) \<Rightarrow> (self\<lparr>token := Some tok, expiry := Some exp\<rparr>, io_return ())
      | Inl e \<Rightarrow>
          (self,
           if is_ConnectionError e then
             io_bind (io_emit
                 [Log_error (''Connection error trying to refresh access token: '' @ str_exn py e),
                  Print (''There was a connection error trying to fetch the access token. ''
                         @ ''Please ensure internet is on in order to use the ''
                         @ service (target self) @ '' Integration.'')])
               (\<lambda>_. io_raise (RefreshError ''Unable to refresh access token due to connection error.'' e))
           else
             io_bind (io_emit [Log_error (''Error trying to refresh access token: '' @ str_exn py e)])
               (\<lambda>_. io_bind (get_integrations py environ)
               (\<lambda>ki. io_bind (io_when (\<not> has_integration ki (target self))
                        (io_emit
                           [Log_error (''No '' @ service (target self) @ '' integration found.''),
                            Print (''Please ensure you have selected a '' @ service (target self)
                                   @ '' account in the Kernels Settings sidebar.'')]))
               (\<lambda>_. io_raise (RefreshError ''Unable to refresh access token.'' e))))))"

text \<open>A sequence of refresh calls, one outcome of the token vault for each call.\<close>

fun refreshes ::
  "python \<Rightarrow> environ \<Rightarrow> (gcp_target \<Rightarrow> string) \<Rightarrow> (exn + user_secrets_client) list \<Rightarrow>
   kaggle_kernel_credentials \<Rightarrow> kaggle_kernel_credentials" where
  "refreshes py environ service [] self = self"
| "refreshes py environ service (secrets # rest) self =
     refreshes py environ service rest (fst (refresh py environ service secrets self))"

section \<open>The proxy transport\<close>

text \<open>
  \<open>API_BASE_URL\<close> is an attribute of the class \<open>_DataProxyConnection\<close>: it is read
  once, from the environment the module is imported in. An instance has the extra
  headers; its constructor reads the proxy token from the environment of the call and
  adds it to the headers the parent constructor leaves, which are taken to be none.
  \<open>_DataProxyConnection.api_request\<close>: the argument is the outcome of
  \<open>super().api_request(*args, **kwargs)\<close>.
\<close>

definition API_BASE_URL :: "environ \<Rightarrow> pyval" where
  "API_BASE_URL import_environ = getenv import_environ ''KAGGLE_DATA_PROXY_URL''"

record data_proxy_connection =
  extra_headers :: "string \<rightharpoonup> pyval"

definition DataProxyConnection_init :: "environ \<Rightarrow> data_proxy_connection" where
  "DataProxyConnection_init environ =
     \<lparr>extra_headers = [''X-KAGGLE-PROXY-DATA'' \<mapsto> getenv environ ''KAGGLE_DATA_PROXY_TOKEN'']\<rparr>"



section \<open>Client construction\<close>

text \<open>
  The constructor of the library's \<open>bigquery.client.Client\<close> is the parameter
  \<open>vendor_init\<close>: from the positional and the keyword arguments of a call to the
  constructed client, or an exception. Its parameter list is the library's, so the
  binding of the arguments belongs to \<open>vendor_init\<close>: a positional argument that fills a
  parameter also given by keyword is one of its exceptions. The wrappers themselves look
  at the keyword arguments only. A call \<open>f(project=p, credentials=c, *args, **kwargs)\<close> whose
  \<open>kwargs\<close> holds \<open>project\<close> or \<open>credentials\<close> raises \<open>TypeError\<close> before \<open>f\<close> is
  entered (Python names the first repeated keyword in the message; the model does not).
\<close>

datatype 'v client = Client 'v | PublicBigqueryClient 'v data_proxy_connection

definition PublicBigqueryClient_init ::
  "environ \<Rightarrow> (pyval list \<Rightarrow> kwargs \<Rightarrow> exn + 'v) \<Rightarrow> pyval list \<Rightarrow> kwargs \<Rightarrow> 'v client io" where
  "PublicBigqueryClient_init environ vendor_init args kwargs =
     io_bind (io_emit [New_PublicBigqueryClient])
       (\<lambda>_. let data_proxy_project = getenv environ ''KAGGLE_DATA_PROXY_PROJECT'';
                anon_credentials = AnonymousCredentials Noop_refresh
            in if kwargs ''project'' \<noteq> None \<or> kwargs ''credentials'' \<noteq> None
               then io_raise (TypeError ''got multiple values for keyword argument'')
               else (case vendor_init args
                            (kwargs(''project'' \<mapsto> data_proxy_project,
                                    ''credentials'' \<mapsto> PyCred anon_credentials)) of
                       Inl e \<Rightarrow> io_raise e
                     | Inr v \<Rightarrow> io_return (PublicBigqueryClient v (DataProxyConnection_init environ))))"

definition public_msg :: string where
  "public_msg = ''Using Kaggle's public dataset BigQuery integration.''"

definition monkeypatch_bq ::
  "python \<Rightarrow> environ \<Rightarrow> (pyval list \<Rightarrow> kwargs \<Rightarrow> exn + 'v) \<Rightarrow> (pyval list \<Rightarrow> kwargs \<Rightarrow> 'v client io) \<Rightarrow>
   pyval list \<Rightarrow> kwargs \<Rightarrow> 'v client io" where
  "monkeypatch_bq py environ vendor_init bq_client args kwargs =
     (let specified_credentials = kwargs_get kwargs ''credentials'' in
      io_bind (get_integrations py environ)
      (\<lambda>ki.
        let has_bigquery = has_bigquery ki;
            arg_project = kwargs_get kwargs ''project'';
            explicit_project_id = py_or arg_project (getenv environ ''GOOGLE_CLOUD_PROJECT'');
            kwargs1 = (if truthy explicit_project_id
                       then kwargs(''project'' \<mapsto> explicit_project_id) else kwargs)
        in
        io_bind (io_when (truthy explicit_project_id)
                   (io_emit [Log_info (''Explicit project set to '' @ py_str explicit_project_id)]))
        (\<lambda>_.
          if explicit_project_id = PyNone \<and> specified_credentials = PyNone \<and> \<not> has_bigquery
          then
            io_bind (io_emit [Log_info public_msg, Print public_msg])
              (\<lambda>_. PublicBigqueryClient_init environ vendor_init args kwargs1)
          else
            io_bind
              (if specified_credentials = PyNone
               then
                 io_bind (io_emit [Log_info ''No credentials specified, using KaggleKernelCredentials.''])
                 (\<lambda>_. io_bind (KaggleKernelCredentials_init BIGQUERY)
                 (\<lambda>c. io_bind (io_when (\<not> has_bigquery)
                          (io_emit
                             [Log_info ''No bigquery integration found, creating client anyways.'',
                              Print (''Please ensure you have selected a BigQuery ''
                                     @ ''account in the Kernels Settings sidebar.'')]))
                 (\<lambda>_. io_return (kwargs1(''credentials'' \<mapsto> PyCred (KaggleKernelCredentials c))))))
               else io_return kwargs1)
            (\<lambda>kwargs2.
              io_bind (io_when (explicit_project_id = PyNone)
                         (io_emit
                            [Log_info ''No project specified while using the unmodified client.'',
                             Print (''Please ensure you specify a project id when creating the client''
                                    @ '' in order to use your BigQuery account.'')]))
              (\<lambda>_. bq_client args kwargs2)))))"

text \<open>
  \<open>monkeypatch_gcs\<close>: \<open>gcs_client_init\<close> is the \<open>storage.Client.__init__\<close> found when
  the wrapper was installed; its result stands for the initialised \<open>self\<close>.
\<close>

definition monkeypatch_gcs ::
  "(pyval list \<Rightarrow> kwargs \<Rightarrow> 'g io) \<Rightarrow> pyval list \<Rightarrow> kwargs \<Rightarrow> 'g io" where
  "monkeypatch_gcs gcs_client_init args kwargs =
     (let specified_credentials = kwargs_get kwargs ''credentials'' in
      io_bind
        (if specified_credentials = PyNone
         then
           io_bind (io_emit [Log_info ''No credentials specified, using KaggleKernelCredentials.''])
           (\<lambda>_. io_bind (KaggleKernelCredentials_init GCS)
           (\<lambda>c. io_return (kwargs(''credentials'' \<mapsto> PyCred (KaggleKernelCredentials c)))))
         else io_return kwargs)
      (\<lambda>kwargs1. gcs_client_init args kwargs1))"

section \<open>Installing the wrappers\<close>

text \<open>
  A constructor slot of a library module (\<open>bigquery.Client\<close>,
  \<open>storage.Client.__init__\<close>) holds a callable: the library's own, defined in the file
  named, or a wrapper defined in this module that closes over the callable it found in
  the slot. \<open>inspect.getsourcefile\<close> gives the file a callable was defined in;
  \<open>kaggle_gcp_file\<close> is the path of this module's file.
\<close>

datatype callable = Vendor_defined string | Kaggle_gcp_defined callable

record modules =
  bigquery_Client :: callable
  storage_Client_init :: callable
  magics_context_credentials :: "credentials option"

fun getsourcefile :: "string \<Rightarrow> callable \<Rightarrow> string" where
  "getsourcefile kaggle_gcp_file (Vendor_defined path) = path"
| "getsourcefile kaggle_gcp_file (Kaggle_gcp_defined f) = kaggle_gcp_file"

definition has_been_monkeypatched :: "string \<Rightarrow> callable \<Rightarrow> bool" where
  "has_been_monkeypatched kaggle_gcp_file method =
     sublist ''kaggle_gcp'' (getsourcefile kaggle_gcp_file method)"

definition init_bigquery :: "python \<Rightarrow> string \<Rightarrow> environ \<Rightarrow> modules \<Rightarrow> modules io" where
  "init_bigquery py kaggle_gcp_file environ m =
     (let is_proxy_token_set = (environ ''KAGGLE_DATA_PROXY_TOKEN'' \<noteq> None);
          is_user_secrets_token_set = (environ ''KAGGLE_USER_SECRETS_TOKEN'' \<noteq> None)
      in if \<not> (is_proxy_token_set \<or> is_user_secrets_token_set) then io_return m
         else
           io_bind (get_integrations py environ)
           (\<lambda>ki. io_bind
              (if has_bigquery ki
               then io_bind (KaggleKernelCredentials_init BIGQUERY)
                      (\<lambda>c. io_return (m\<lparr>magics_context_credentials := Some (KaggleKernelCredentials c)\<rparr>))
               else io_return m)
           (\<lambda>m1. let bq_client = bigquery_Client m1
                 in if \<not> has_been_monkeypatched kaggle_gcp_file (bigquery_Client m1)
                    then io_return (m1\<lparr>bigquery_Client := Kaggle_gcp_defined bq_client\<rparr>)
                    else io_return m1)))"

definition init_gcs :: "python \<Rightarrow> string \<Rightarrow> environ \<Rightarrow> modules \<Rightarrow> modules io" where
  "init_gcs py kaggle_gcp_file environ m =
     (let is_user_secrets_token_set = (environ ''KAGGLE_USER_SECRETS_TOKEN'' \<noteq> None)
      in if \<not> is_user_secrets_token_set then io_return m
         else
           io_bind (get_integrations py environ)
           (\<lambda>ki. if \<not> has_gcs ki then io_return m
                 else
                   (let gcs_client_init = storage_Client_init m
                    in if \<not> has_been_monkeypatched kaggle_gcp_file (storage_Client_init m)
                       then io_return (m\<lparr>storage_Client_init := Kaggle_gcp_defined gcs_client_init\<rparr>)
                       else io_return m)))"

definition init :: "python \<Rightarrow> string \<Rightarrow> environ \<Rightarrow> modules \<Rightarrow> modules io" where
  "init py kaggle_gcp_file environ m =
     io_bind (init_bigquery py kaggle_gcp_file environ m) (init_gcs py kaggle_gcp_file environ)"

text \<open>
  Calling what a slot holds: the library's constructor, or the wrapper around the
  callable it closed over.
\<close>

primrec call_bigquery_Client ::
  "python \<Rightarrow> environ \<Rightarrow> (pyval list \<Rightarrow> kwargs \<Rightarrow> exn + 'v) \<Rightarrow> callable \<Rightarrow>
   pyval list \<Rightarrow> kwargs \<Rightarrow> 'v client io" where
  "call_bigquery_Client py environ vendor_init (Vendor_defined path) =
     (\<lambda>args kwargs. case vendor_init args kwargs of
                       Inl e \<Rightarrow> io_raise e
                     | Inr v \<Rightarrow> io_return (Client v))"
| "call_bigquery_Client py environ vendor_init (Kaggle_gcp_defined f) =
     monkeypatch_bq py environ vendor_init (call_bigquery_Client py environ vendor_init f)"

primrec call_storage_Client_init ::
  "(pyval list \<Rightarrow> kwargs \<Rightarrow> exn + 'g) \<Rightarrow> callable \<Rightarrow> pyval list \<Rightarrow> kwargs \<Rightarrow> 'g io" where
  "call_storage_Client_init vendor_init (Vendor_defined path) =
     (\<lambda>args kwargs. case vendor_init args kwargs of
                       Inl e \<Rightarrow> io_raise e
                     | Inr g \<Rightarrow> io_return g)"
| "call_storage_Client_init vendor_init (Kaggle_gcp_defined f) =
     monkeypatch_gcs (call_storage_Client_init vendor_init f)"

section \<open>Basic facts\<close>

lemma io_bind_return [simp]: "io_bind (io_return x) f = f x"
  by (simp add: io_bind_def io_return_def split: prod.splits)

lemma io_bind_raise [simp]: "io_bind (io_raise e) f = io_raise e"
  by (simp add: io_bind_def io_raise_def)

lemma io_bind_emit [simp]: "io_bind (io_emit evs) f = (fst (f ()), evs @ snd (f ()))"
  by (simp add: io_bind_def io_emit_def split: prod.splits)

lemma io_bind_pair_Inr [simp]: "io_bind (Inr x, evs) f = (fst (f x), evs @ snd (f x))"
  by (simp add: io_bind_def split: prod.splits)

lemma io_bind_pair_Inl [simp]: "io_bind (Inl e, evs) f = (Inl e, evs)"
  by (simp add: io_bind_def)

lemma io_when_simps [simp]: "io_when True m = m" "io_when False m = io_return ()"
  by (simp_all add: io_when_def)

lemma io_return_sel [simp]: "fst (io_return x) = Inr x" "snd (io_return x) = []"
  by (simp_all add: io_return_def)

lemma io_raise_sel [simp]: "fst (io_raise e) = Inl e" "snd (io_raise e) = []"
  by (simp_all add: io_raise_def)

text \<open>
  \<open>split\<close> is the inverse of joining with the separator, and no piece holds the
  separator: the pieces are the separated entries of the string.
\<close>

lemma split_not_Nil: "split sep s \<noteq> []"
  by (induction s) (auto split: list.splits)

lemma split_pieces: "w \<in> set (split sep s) \<Longrightarrow> sep \<notin> set w"
  by (induction s arbitrary: w) (auto split: list.splits if_splits)

lemma split_join: "hd (split sep s) @ concat (map ((#) sep) (tl (split sep s))) = s"
  by (induction s) (auto split: list.splits simp: split_not_Nil)

lemma GcpTarget_getitem_Inr: "GcpTarget_getitem n = Inr t \<longleftrightarrow> n = target_name t"
  by (cases t) (auto simp: GcpTarget_getitem_def target_name_def)

lemma GcpTarget_getitem_Inl:
  "GcpTarget_getitem n = Inl e \<longleftrightarrow> e = KeyError n \<and> n \<notin> range target_name"
  by (auto simp: GcpTarget_getitem_def target_name_def split: gcp_target.splits)

lemma range_target_name: "range target_name = {''BIGQUERY'', ''GCS'', ''AUTOML''}"
proof -
  have "UNIV = {BIGQUERY, GCS, AUTOML}"
    using gcp_target.exhaust by auto
  then have "range target_name = target_name ` {BIGQUERY, GCS, AUTOML}"
    by simp
  then show ?thesis
    by (simp add: target_name_def)
qed

lemma split_subset: "w \<in> set (split sep s) \<Longrightarrow> set w \<subseteq> set s"
proof (induction s arbitrary: w)
  case Nil
  then show ?case by simp
next
  case (Cons c cs)
  obtain v vs where sp: "split sep cs = v # vs"
    using split_not_Nil [of sep cs] by (cases "split sep cs") auto
  have "set v \<subseteq> set cs" "\<And>u. u \<in> set vs \<Longrightarrow> set u \<subseteq> set cs"
    using Cons.IH sp by simp_all
  then show ?case
    using Cons.prems sp by (auto split: if_splits)
qed

lemma ascii_upper_target_name: "ascii_upper (target_name t) = target_name t"
  by (cases t) (simp_all add: target_name_def ascii_upper_def upper_char_def)

lemma has_integration_add:
  "has_integration (add_integration ki t) t' \<longleftrightarrow> t' = t \<or> has_integration ki t'"
  by (auto simp: has_integration_def add_integration_def)

lemma add_integration_idem: "add_integration (add_integration ki t) t = add_integration ki t"
  by (simp add: add_integration_def)

lemma has_integration_empty: "\<not> has_integration KernelIntegrations t"
  by (simp add: has_integration_def KernelIntegrations_def)

lemma has_bigquery_iff: "has_bigquery ki \<longleftrightarrow> has_integration ki BIGQUERY"
  by (simp add: has_bigquery_def has_integration_def)

lemma has_gcs_iff: "has_gcs ki \<longleftrightarrow> has_integration ki GCS"
  by (simp add: has_gcs_def has_integration_def)

lemma has_automl_iff: "has_automl ki \<longleftrightarrow> has_integration ki AUTOML"
  by (simp add: has_automl_def has_integration_def)

section \<open>Parsing the integrations string\<close>

lemma add_integrations_result:
  "\<exists>ki'. add_integrations py toks ki =
            (Inr ki', map (\<lambda>tok. Log_error (''Unknown integration target: ''
                                            @ str_repr py (str_upper py tok)))
                        (filter (\<lambda>tok. str_upper py tok \<notin> range target_name) toks))
        \<and> (\<forall>t. has_integration ki' t \<longleftrightarrow>
                 has_integration ki t \<or> (\<exists>tok\<in>set toks. str_upper py tok = target_name t))"
proof (induction toks arbitrary: ki)
  case Nil
  then show ?case by (simp add: io_return_def)
next
  case (Cons tok toks)
  let ?logs = "\<lambda>ts. map (\<lambda>tok. Log_error (''Unknown integration target: ''
                                           @ str_repr py (str_upper py tok)))
                       (filter (\<lambda>tok. str_upper py tok \<notin> range target_name) ts)"
  show ?case
  proof (cases "GcpTarget_getitem (str_upper py tok)")
    case (Inr t)
    then have nm: "str_upper py tok = target_name t"
      by (simp add: GcpTarget_getitem_Inr)
    from Cons.IH [of "add_integration ki t"] obtain ki' where
      r: "add_integrations py toks (add_integration ki t) = (Inr ki', ?logs toks)"
      and h: "\<forall>t'. has_integration ki' t' \<longleftrightarrow>
                 has_integration (add_integration ki t) t'
                 \<or> (\<exists>tok\<in>set toks. str_upper py tok = target_name t')"
      by blast
    have inj: "\<And>t'. target_name t = target_name t' \<longleftrightarrow> t' = t"
      by (metis GcpTarget_getitem_Inr sum.inject(2))
    have "add_integrations py (tok # toks) ki = (Inr ki', ?logs (tok # toks))"
      using Inr r nm by simp
    moreover have "\<forall>t'. has_integration ki' t' \<longleftrightarrow>
                 has_integration ki t' \<or> (\<exists>tok\<in>set (tok # toks). str_upper py tok = target_name t')"
      using h nm inj by (auto simp: has_integration_add)
    ultimately show ?thesis by blast
  next
    case (Inl e)
    then have e: "e = KeyError (str_upper py tok)" and nm: "str_upper py tok \<notin> range target_name"
      by (simp_all add: GcpTarget_getitem_Inl)
    from Cons.IH [of ki] obtain ki' where
      r: "add_integrations py toks ki = (Inr ki', ?logs toks)"
      and h: "\<forall>t'. has_integration ki' t' \<longleftrightarrow>
                 has_integration ki t' \<or> (\<exists>tok\<in>set toks. str_upper py tok = target_name t')"
      by blast
    have "add_integrations py (tok # toks) ki = (Inr ki', ?logs (tok # toks))"
      using Inl e r nm by simp
    moreover have "\<forall>t'. has_integration ki' t' \<longleftrightarrow>
                 has_integration ki t' \<or> (\<exists>tok\<in>set (tok # toks). str_upper py tok = target_name t')"
      using h nm by auto
    ultimately show ?thesis by blast
  qed
qed

lemma get_integrations_Inr: "\<exists>ki logs. get_integrations py environ = (Inr ki, logs)"
proof (cases "environ ''KAGGLE_KERNEL_INTEGRATIONS''")
  case None
  then show ?thesis by (simp add: get_integrations_def io_return_def)
next
  case (Some v)
  then show ?thesis
    using add_integrations_result [of py "split CHR '':'' v" KernelIntegrations]
    by (auto simp: get_integrations_def)
qed

lemma get_integrations_unset:
  "environ ''KAGGLE_KERNEL_INTEGRATIONS'' = None \<Longrightarrow>
   get_integrations py environ = (Inr KernelIntegrations, [])"
  by (simp add: get_integrations_def io_return_def)

text \<open>
  C7. For every value of the integrations variable, absent or present, and whatever the
  characters in it, \<open>get_integrations\<close> returns a registry and raises nothing. With the
  variable absent the registry is empty and nothing is logged. With the variable present,
  a target is in the registry exactly when \<open>str.upper\<close> of one of the colon-separated
  entries is its name (so repeating an entry changes nothing), and one error is logged,
  in order, for each entry of which \<open>str.upper\<close> is no name. Where the value is ASCII,
  on which \<open>str.upper\<close> changes the letters \<open>a\<close> to \<open>z\<close> only, a target is in the
  registry exactly when an entry equals its name up to the case of the letters.
\<close>

theorem get_integrations_parses:
  "(environ ''KAGGLE_KERNEL_INTEGRATIONS'' = None \<longrightarrow>
      get_integrations py environ = (Inr KernelIntegrations, []) \<and>
      (\<forall>t. \<not> has_integration KernelIntegrations t)) \<and>
   (\<forall>v. environ ''KAGGLE_KERNEL_INTEGRATIONS'' = Some v \<longrightarrow>
      (\<exists>ki. get_integrations py environ =
               (Inr ki, map (\<lambda>tok. Log_error (''Unknown integration target: ''
                                               @ str_repr py (str_upper py tok)))
                          (filter (\<lambda>tok. str_upper py tok \<notin> range target_name)
                             (split CHR '':'' v)))
          \<and> (\<forall>t. has_integration ki t \<longleftrightarrow>
                    (\<exists>tok\<in>set (split CHR '':'' v). str_upper py tok = target_name t))
          \<and> ((\<forall>s. (\<forall>c\<in>set s. (of_char c :: nat) < 128) \<longrightarrow> str_upper py s = ascii_upper s)
              \<and> (\<forall>c\<in>set v. (of_char c :: nat) < 128) \<longrightarrow>
               (\<forall>t. has_integration ki t \<longleftrightarrow>
                    (\<exists>tok\<in>set (split CHR '':'' v).
                        ascii_upper tok = ascii_upper (target_name t))))))"
proof -
  have none: "environ ''KAGGLE_KERNEL_INTEGRATIONS'' = None \<longrightarrow>
      get_integrations py environ = (Inr KernelIntegrations, []) \<and>
      (\<forall>t. \<not> has_integration KernelIntegrations t)"
    by (simp add: get_integrations_unset has_integration_empty)
  have some: "\<exists>ki. get_integrations py environ =
               (Inr ki, map (\<lambda>tok. Log_error (''Unknown integration target: ''
                                               @ str_repr py (str_upper py tok)))
                          (filter (\<lambda>tok. str_upper py tok \<notin> range target_name)
                             (split CHR '':'' v)))
          \<and> (\<forall>t. has_integration ki t \<longleftrightarrow>
                    (\<exists>tok\<in>set (split CHR '':'' v). str_upper py tok = target_name t))
          \<and> ((\<forall>s. (\<forall>c\<in>set s. (of_char c :: nat) < 128) \<longrightarrow> str_upper py s = ascii_upper s)
              \<and> (\<forall>c\<in>set v. (of_char c :: nat) < 128) \<longrightarrow>
               (\<forall>t. has_integration ki t \<longleftrightarrow>
                    (\<exists>tok\<in>set (split CHR '':'' v).
                        ascii_upper tok = ascii_upper (target_name t))))"
    if v: "environ ''KAGGLE_KERNEL_INTEGRATIONS'' = Some v" for v
  proof -
    from add_integrations_result [of py "split CHR '':'' v" KernelIntegrations]
    obtain ki where
      g: "get_integrations py environ =
               (Inr ki, map (\<lambda>tok. Log_error (''Unknown integration target: ''
                                               @ str_repr py (str_upper py tok)))
                          (filter (\<lambda>tok. str_upper py tok \<notin> range target_name)
                             (split CHR '':'' v)))"
      and h: "\<forall>t. has_integration ki t \<longleftrightarrow>
                    (\<exists>tok\<in>set (split CHR '':'' v). str_upper py tok = target_name t)"
      using v by (auto simp: get_integrations_def has_integration_empty)
    have a: "\<forall>t. has_integration ki t \<longleftrightarrow>
                    (\<exists>tok\<in>set (split CHR '':'' v).
                        ascii_upper tok = ascii_upper (target_name t))"
      if up: "\<forall>s. (\<forall>c\<in>set s. (of_char c :: nat) < 128) \<longrightarrow> str_upper py s = ascii_upper s"
        and av: "\<forall>c\<in>set v. (of_char c :: nat) < 128"
    proof -
      have "str_upper py tok = ascii_upper tok" if "tok \<in> set (split CHR '':'' v)" for tok
      proof -
        have "set tok \<subseteq> set v"
          using that by (rule split_subset)
        then have "\<forall>c\<in>set tok. (of_char c :: nat) < 128"
          using av by blast
        then show ?thesis
          using up by blast
      qed
      then show ?thesis
        using h by (auto simp: ascii_upper_target_name)
    qed
    show ?thesis
      using g h a by blast
  qed
  show ?thesis
    using none some by blast
qed

theorem get_integrations_parses_witness:
  "snd (get_integrations ascii_python
          (Map.empty(''KAGGLE_KERNEL_INTEGRATIONS'' \<mapsto> ''bigQuery:unknown_target:BIGQUERY'')))
     = [Log_error (''Unknown integration target: '' @ [CHR 0x27] @ ''UNKNOWN_TARGET'' @ [CHR 0x27])]
   \<and> has_integration (projr (fst (get_integrations ascii_python
         (Map.empty(''KAGGLE_KERNEL_INTEGRATIONS'' \<mapsto> ''bigQuery:unknown_target:BIGQUERY'')))))
       BIGQUERY
   \<and> \<not> has_integration (projr (fst (get_integrations ascii_python
         (Map.empty(''KAGGLE_KERNEL_INTEGRATIONS'' \<mapsto> ''bigQuery:unknown_target:BIGQUERY'')))))
       GCS"
proof -
  let ?V = "''bigQuery:unknown_target:BIGQUERY''"
  let ?E = "Map.empty(''KAGGLE_KERNEL_INTEGRATIONS'' \<mapsto> ?V)"
  have s: "split CHR '':'' ?V = [''bigQuery'', ''unknown_target'', ''BIGQUERY'']"
    by simp
  have u: "ascii_upper ''bigQuery'' = ''BIGQUERY''"
     "ascii_upper ''unknown_target'' = ''UNKNOWN_TARGET''"
     "ascii_upper ''BIGQUERY'' = ''BIGQUERY''" "ascii_upper ''GCS'' = ''GCS''"
     "ascii_upper ''AUTOML'' = ''AUTOML''"
    by code_simp+
  have p: "str_upper ascii_python = ascii_upper"
     "str_repr ascii_python = (\<lambda>s. [CHR 0x27] @ s @ [CHR 0x27])"
    by (simp_all add: ascii_python_def)
  have up: "\<forall>s. (\<forall>c\<in>set s. (of_char c :: nat) < 128) \<longrightarrow> str_upper ascii_python s = ascii_upper s"
    by (simp add: p)
  have av: "\<forall>c\<in>set ?V. (of_char c :: nat) < 128"
    by simp
  have e: "?E ''KAGGLE_KERNEL_INTEGRATIONS'' = Some ?V"
    by simp
  from get_integrations_parses [of ?E ascii_python] e up av obtain ki where
    g: "get_integrations ascii_python ?E =
          (Inr ki, map (\<lambda>tok. Log_error (''Unknown integration target: ''
                                          @ str_repr ascii_python (str_upper ascii_python tok)))
                     (filter (\<lambda>tok. str_upper ascii_python tok \<notin> range target_name)
                        (split CHR '':'' ?V)))"
    and h: "\<forall>t. has_integration ki t \<longleftrightarrow>
              (\<exists>tok\<in>set (split CHR '':'' ?V). ascii_upper tok = ascii_upper (target_name t))"
    by blast
  have "has_integration ki BIGQUERY" "\<not> has_integration ki GCS"
    using h by (simp_all add: s u target_name_def)
  moreover have "snd (get_integrations ascii_python ?E)
      = [Log_error (''Unknown integration target: '' @ [CHR 0x27] @ ''UNKNOWN_TARGET'' @ [CHR 0x27])]"
    unfolding g by (simp add: s u p range_target_name)
  ultimately show ?thesis by (simp add: g)
qed

section \<open>Refreshing the delegated credential\<close>

lemma refresh_state:
  "fst (refresh py environ service secrets self) =
     (case fetch_token secrets (target self) of
        Inl e \<Rightarrow> self
      | Inr (tok, exp) \<Rightarrow> self\<lparr>token := Some tok, expiry := Some exp\<rparr>)"
  by (simp add: refresh_def split: sum.splits prod.splits)

lemma refreshes_inv:
  assumes "token self = None \<and> expiry self = None \<or>
           (\<exists>tok exp. token self = Some tok \<and> expiry self = Some exp \<and> P tok exp)"
    and "\<And>s tok exp. s \<in> set rs \<Longrightarrow> fetch_token s (target self) = Inr (tok, exp) \<Longrightarrow> P tok exp"
  shows "target (refreshes py environ service rs self) = target self \<and>
         (token (refreshes py environ service rs self) = None \<and>
          expiry (refreshes py environ service rs self) = None \<or>
          (\<exists>tok exp. token (refreshes py environ service rs self) = Some tok \<and>
                      expiry (refreshes py environ service rs self) = Some exp \<and> P tok exp))"
  using assms
proof (induction rs arbitrary: self)
  case Nil
  then show ?case by simp
next
  case (Cons s rs)
  let ?self' = "fst (refresh py environ service s self)"
  have t: "target ?self' = target self"
    by (simp add: refresh_state split: sum.splits prod.splits)
  have inv: "token ?self' = None \<and> expiry ?self' = None \<or>
           (\<exists>tok exp. token ?self' = Some tok \<and> expiry ?self' = Some exp \<and> P tok exp)"
  proof (cases "fetch_token s (target self)")
    case (Inl e)
    then show ?thesis using Cons.prems(1) by (simp add: refresh_state)
  next
    case (Inr p)
    obtain tok exp where p: "p = (tok, exp)" by (cases p)
    have "P tok exp" using Cons.prems(2) [of s tok exp] Inr p by simp
    then show ?thesis using Inr p by (simp add: refresh_state)
  qed
  have "target (refreshes py environ service rs ?self') = target ?self' \<and>
         (token (refreshes py environ service rs ?self') = None \<and>
          expiry (refreshes py environ service rs ?self') = None \<or>
          (\<exists>tok exp. token (refreshes py environ service rs ?self') = Some tok \<and>
                      expiry (refreshes py environ service rs ?self') = Some exp \<and> P tok exp))"
  proof (rule Cons.IH [OF inv])
    fix s' tok exp
    assume "s' \<in> set rs" "fetch_token s' (target ?self') = Inr (tok, exp)"
    then show "P tok exp" using Cons.prems(2) [of s' tok exp] t by simp
  qed
  then show ?case using t by simp
qed

text \<open>
  C2. Start from a fresh credential (token and expiry unset) and run any sequence of
  refresh calls, the token vault answering or failing at each call as it likes. Afterwards
  token and expiry are both unset, or both set, and then they are the token and the expiry
  of one and the same answer of the vault.
\<close>

theorem refreshes_token_expiry:
  "let c = refreshes py environ service rs \<lparr>target = t, token = None, expiry = None\<rparr>
   in token c = None \<and> expiry c = None
      \<or> (\<exists>tok exp. token c = Some tok \<and> expiry c = Some exp
            \<and> (\<exists>s\<in>set rs. fetch_token s t = Inr (tok, exp)))"
proof -
  let ?fresh = "\<lparr>target = t, token = None, expiry = None\<rparr>"
  have "token ?fresh = None \<and> expiry ?fresh = None \<or>
        (\<exists>tok exp. token ?fresh = Some tok \<and> expiry ?fresh = Some exp
           \<and> (\<exists>s\<in>set rs. fetch_token s t = Inr (tok, exp)))"
    by simp
  moreover have "\<And>s tok exp. s \<in> set rs \<Longrightarrow> fetch_token s (target ?fresh) = Inr (tok, exp)
      \<Longrightarrow> \<exists>s\<in>set rs. fetch_token s t = Inr (tok, exp)"
    by auto
  ultimately show ?thesis
    unfolding Let_def
    using refreshes_inv [of ?fresh "\<lambda>tok exp. \<exists>s\<in>set rs. fetch_token s t = Inr (tok, exp)"
        rs py environ service]
    by blast
qed

theorem refreshes_token_expiry_witness:
  "token (refreshes ascii_python Map.empty (\<lambda>t. ''BigQuery'')
            [Inl (ConnectionError ''unreachable''),
             Inr \<lparr>get_bigquery_access_token = Inr (''ya29.a'', 3600),
                  get_gcs_access_token = Inl (OtherException ''denied''),
                  get_automl_access_token = Inl (OtherException ''denied'')\<rparr>,
             Inl (OtherException ''denied'')]
            \<lparr>target = BIGQUERY, token = None, expiry = None\<rparr>) = Some ''ya29.a''
   \<and> expiry (refreshes ascii_python Map.empty (\<lambda>t. ''BigQuery'')
            [Inl (ConnectionError ''unreachable''),
             Inr \<lparr>get_bigquery_access_token = Inr (''ya29.a'', 3600),
                  get_gcs_access_token = Inl (OtherException ''denied''),
                  get_automl_access_token = Inl (OtherException ''denied'')\<rparr>,
             Inl (OtherException ''denied'')]
            \<lparr>target = BIGQUERY, token = None, expiry = None\<rparr>) = Some 3600"
  using refreshes_token_expiry [of ascii_python Map.empty "\<lambda>t. ''BigQuery''"
      "[Inl (ConnectionError ''unreachable''),
        Inr \<lparr>get_bigquery_access_token = Inr (''ya29.a'', 3600),
             get_gcs_access_token = Inl (OtherException ''denied''),
             get_automl_access_token = Inl (OtherException ''denied'')\<rparr>,
        Inl (OtherException ''denied'')]" BIGQUERY]
  by (simp add: refresh_state fetch_token_def)

text \<open>
  C3. If constructing the secrets client or fetching the token raises a connection error,
  \<open>refresh\<close> leaves the credential as it was and raises \<open>RefreshError\<close> with that
  connection error as its cause; it logs one error and prints one line, the connectivity
  hint, which names the display name of the credential's target.
\<close>

theorem refresh_connection_error:
  assumes "fetch_token secrets (target self) = Inl (ConnectionError m)"
  shows "refresh py environ service secrets self =
           (self,
            Inl (RefreshError ''Unable to refresh access token due to connection error.''
                   (ConnectionError m)),
            [Log_error (''Connection error trying to refresh access token: '' @ m),
             Print (''There was a connection error trying to fetch the access token. ''
                    @ ''Please ensure internet is on in order to use the ''
                    @ service (target self) @ '' Integration.'')])"
  using assms by (simp add: refresh_def)

theorem refresh_connection_error_witness:
  "fetch_token
     (Inr \<lparr>get_bigquery_access_token = Inr (''ya29.a'', 3600),
          get_gcs_access_token = Inl (ConnectionError ''unreachable''),
          get_automl_access_token = Inr (''ya29.b'', 60)\<rparr>)
     (target \<lparr>target = GCS, token = None, expiry = None\<rparr>)
     = Inl (ConnectionError ''unreachable'')
   \<and> refresh ascii_python Map.empty (\<lambda>t. ''Google Cloud Storage'')
       (Inr \<lparr>get_bigquery_access_token = Inr (''ya29.a'', 3600),
            get_gcs_access_token = Inl (ConnectionError ''unreachable''),
            get_automl_access_token = Inr (''ya29.b'', 60)\<rparr>)
       \<lparr>target = GCS, token = None, expiry = None\<rparr>
     = (\<lparr>target = GCS, token = None, expiry = None\<rparr>,
        Inl (RefreshError ''Unable to refresh access token due to connection error.''
               (ConnectionError ''unreachable'')),
        [Log_error ''Connection error trying to refresh access token: unreachable'',
         Print (''There was a connection error trying to fetch the access token. ''
                @ ''Please ensure internet is on in order to use the ''
                @ ''Google Cloud Storage Integration.'')])"
proof -
  let ?S = "Inr \<lparr>get_bigquery_access_token = Inr (''ya29.a'', 3600),
                 get_gcs_access_token = Inl (ConnectionError ''unreachable''),
                 get_automl_access_token = Inr (''ya29.b'', 60)\<rparr>"
  let ?C = "\<lparr>target = GCS, token = None, expiry = None\<rparr>"
  have h: "fetch_token ?S (target ?C) = Inl (ConnectionError ''unreachable'')"
    by (simp add: fetch_token_def)
  show ?thesis
    using h refresh_connection_error [OF h, of ascii_python Map.empty "\<lambda>t. ''Google Cloud Storage''"]
    by simp
qed

text \<open>
  C4. If constructing the secrets client or fetching the token raises anything that is
  not a connection error, \<open>refresh\<close> leaves the credential as it was and raises
  \<open>RefreshError\<close> with that exception as its cause. It logs the error, reads the registry
  again (with the registry's own log lines), and logs and prints the hint to select an
  account exactly when the registry does not have the credential's target.
\<close>

theorem refresh_other_error:
  assumes "fetch_token secrets (target self) = Inl e" and "\<not> is_ConnectionError e"
  shows "\<exists>ki logs. get_integrations py environ = (Inr ki, logs) \<and>
           refresh py environ service secrets self =
             (self,
              Inl (RefreshError ''Unable to refresh access token.'' e),
              Log_error (''Error trying to refresh access token: '' @ str_exn py e) # logs @
              (if has_integration ki (target self) then []
               else [Log_error (''No '' @ service (target self) @ '' integration found.''),
                     Print (''Please ensure you have selected a '' @ service (target self)
                            @ '' account in the Kernels Settings sidebar.'')]))"
proof -
  obtain ki logs where g: "get_integrations py environ = (Inr ki, logs)"
    using get_integrations_Inr by blast
  show ?thesis
    using assms by (simp add: refresh_def g)
qed

theorem refresh_other_error_witness:
  "fetch_token (Inl (OtherException ''no token''))
     (target \<lparr>target = BIGQUERY, token = None, expiry = None\<rparr>)
     = Inl (OtherException ''no token'')
   \<and> \<not> is_ConnectionError (OtherException ''no token'')
   \<and> refresh ascii_python Map.empty (\<lambda>t. ''BigQuery'') (Inl (OtherException ''no token''))
       \<lparr>target = BIGQUERY, token = None, expiry = None\<rparr>
     = (\<lparr>target = BIGQUERY, token = None, expiry = None\<rparr>,
        Inl (RefreshError ''Unable to refresh access token.'' (OtherException ''no token'')),
        [Log_error ''Error trying to refresh access token: no token'',
         Log_error ''No BigQuery integration found.'',
         Print ''Please ensure you have selected a BigQuery account in the Kernels Settings sidebar.''])"
proof -
  let ?C = "\<lparr>target = BIGQUERY, token = None, expiry = None\<rparr>"
  have h: "fetch_token (Inl (OtherException ''no token'')) (target ?C)
             = Inl (OtherException ''no token'')"
    by (simp add: fetch_token_def)
  have n: "\<not> is_ConnectionError (OtherException ''no token'')"
    by simp
  have g: "get_integrations ascii_python Map.empty = (Inr KernelIntegrations, [])"
    by (simp add: get_integrations_unset)
  from refresh_other_error [OF h n, of ascii_python Map.empty "\<lambda>t. ''BigQuery''"]
  show ?thesis
    using h n by (simp add: g has_integration_empty)
qed


section \<open>The routing decision\<close>

lemma get_integrations_logs:
  "get_integrations py environ = (Inr ki, logs) \<Longrightarrow> set logs \<subseteq> range Log_error"
proof (cases "environ ''KAGGLE_KERNEL_INTEGRATIONS''")
  case None
  assume "get_integrations py environ = (Inr ki, logs)"
  with None show ?thesis by (simp add: get_integrations_unset)
next
  case (Some v)
  assume g: "get_integrations py environ = (Inr ki, logs)"
  from add_integrations_result [of py "split CHR '':'' v" KernelIntegrations] Some g
  show ?thesis by (auto simp: get_integrations_def)
qed

lemma explicit_project_id_None:
  "py_or a (getenv environ ''GOOGLE_CLOUD_PROJECT'') = PyNone
     \<longleftrightarrow> \<not> truthy a \<and> environ ''GOOGLE_CLOUD_PROJECT'' = None"
  by (cases a) (auto simp: py_or_def getenv_def split: option.splits)

lemma monkeypatch_bq_public:
  assumes "get_integrations py environ = (Inr ki, logs)"
    and "\<not> truthy (kwargs_get kwargs ''project'')"
    and "environ ''GOOGLE_CLOUD_PROJECT'' = None"
    and "kwargs_get kwargs ''credentials'' = PyNone"
    and "\<not> has_bigquery ki"
  shows "monkeypatch_bq py environ vendor_init bq_client args kwargs =
           (fst (PublicBigqueryClient_init environ vendor_init args kwargs),
            logs @ [Log_info public_msg, Print public_msg]
                 @ snd (PublicBigqueryClient_init environ vendor_init args kwargs))"
  using assms by (simp add: monkeypatch_bq_def py_or_def getenv_def)

lemma monkeypatch_bq_other:
  assumes "get_integrations py environ = (Inr ki, logs)"
    and "\<not> (\<not> truthy (kwargs_get kwargs ''project'') \<and> environ ''GOOGLE_CLOUD_PROJECT'' = None
            \<and> kwargs_get kwargs ''credentials'' = PyNone \<and> \<not> has_bigquery ki)"
  shows "\<exists>evs kwargs'.
           monkeypatch_bq py environ vendor_init bq_client args kwargs =
             (fst (bq_client args kwargs'), logs @ evs @ snd (bq_client args kwargs'))
         \<and> New_PublicBigqueryClient \<notin> set evs
         \<and> (kwargs_get kwargs ''credentials'' \<noteq> PyNone \<longrightarrow>
              kwargs' ''credentials'' = kwargs ''credentials''
              \<and> (\<forall>t. New_KaggleKernelCredentials t \<notin> set evs))
         \<and> (\<forall>k. k \<noteq> ''project'' \<and> k \<noteq> ''credentials'' \<longrightarrow> kwargs' k = kwargs k)"
proof -
  let ?epi = "py_or (kwargs_get kwargs ''project'') (getenv environ ''GOOGLE_CLOUD_PROJECT'')"
  let ?kw1 = "if truthy ?epi then kwargs(''project'' \<mapsto> ?epi) else kwargs"
  let ?kw2 = "if kwargs_get kwargs ''credentials'' = PyNone
              then ?kw1(''credentials'' \<mapsto>
                     PyCred (KaggleKernelCredentials \<lparr>target = BIGQUERY, token = None, expiry = None\<rparr>))
              else ?kw1"
  let ?evs = "(if truthy ?epi then [Log_info (''Explicit project set to '' @ py_str ?epi)] else [])
     @ (if kwargs_get kwargs ''credentials'' = PyNone
        then [Log_info ''No credentials specified, using KaggleKernelCredentials.'',
              New_KaggleKernelCredentials BIGQUERY]
             @ (if \<not> has_bigquery ki
                then [Log_info ''No bigquery integration found, creating client anyways.'',
                      Print (''Please ensure you have selected a BigQuery ''
                             @ ''account in the Kernels Settings sidebar.'')]
                else [])
        else [])
     @ (if ?epi = PyNone
        then [Log_info ''No project specified while using the unmodified client.'',
              Print (''Please ensure you specify a project id when creating the client''
                     @ '' in order to use your BigQuery account.'')]
        else [])"
  have c: "\<not> (?epi = PyNone \<and> kwargs_get kwargs ''credentials'' = PyNone \<and> \<not> has_bigquery ki)"
    using assms(2) by (simp add: explicit_project_id_None)
  have "monkeypatch_bq py environ vendor_init bq_client args kwargs =
             (fst (bq_client args ?kw2), logs @ ?evs @ snd (bq_client args ?kw2))"
    using assms(1) c
    by (simp add: monkeypatch_bq_def KaggleKernelCredentials_init_def Let_def)
  moreover have "New_PublicBigqueryClient \<notin> set ?evs" by simp
  moreover have "kwargs_get kwargs ''credentials'' \<noteq> PyNone \<longrightarrow>
              ?kw2 ''credentials'' = kwargs ''credentials''
              \<and> (\<forall>t. New_KaggleKernelCredentials t \<notin> set ?evs)"
    by simp
  moreover have "\<forall>k. k \<noteq> ''project'' \<and> k \<noteq> ''credentials'' \<longrightarrow> ?kw2 k = kwargs k"
    by simp
  ultimately show ?thesis by blast
qed


lemma PublicBigqueryClient_init_no_keys:
  assumes "kwargs ''project'' = None" and "kwargs ''credentials'' = None"
  shows "PublicBigqueryClient_init environ vendor_init args kwargs =
           (map_sum id (\<lambda>v. PublicBigqueryClient v (DataProxyConnection_init environ))
              (vendor_init args
                 (kwargs(''project'' \<mapsto> getenv environ ''KAGGLE_DATA_PROXY_PROJECT'',
                         ''credentials'' \<mapsto> PyCred (AnonymousCredentials Noop_refresh)))),
            [New_PublicBigqueryClient])"
  using assms
  by (simp add: PublicBigqueryClient_init_def Let_def io_raise_def io_return_def
           split: sum.splits)

lemma PublicBigqueryClient_init_events:
  "snd (PublicBigqueryClient_init environ vendor_init args kwargs) = [New_PublicBigqueryClient]"
  by (simp add: PublicBigqueryClient_init_def Let_def split: sum.splits)

lemma PublicBigqueryClient_init_repeated_keyword:
  assumes "kwargs ''project'' \<noteq> None \<or> kwargs ''credentials'' \<noteq> None"
  shows "PublicBigqueryClient_init environ vendor_init args kwargs =
           (Inl (TypeError ''got multiple values for keyword argument''),
            [New_PublicBigqueryClient])"
  using assms by (auto simp: PublicBigqueryClient_init_def Let_def)

text \<open>
  The call \<open>bigquery.Client(project='')\<close>, with no default project in the environment,
  no credentials and an empty registry, and a library constructor that accepts every
  argument. The caller has given a project argument, yet the wrapper announces the public
  routing and enters the constructor of \<open>PublicBigqueryClient\<close>; that constructor
  raises \<open>TypeError\<close>, since \<open>project\<close> reaches the library's constructor twice. The
  call returns neither a \<open>PublicBigqueryClient\<close> nor a plain client.
\<close>

theorem public_routing_counterexample:
  "monkeypatch_bq ascii_python Map.empty
     (\<lambda>args kwargs. Inr (kwargs ''project'', kwargs ''credentials''))
     (call_bigquery_Client ascii_python Map.empty
        (\<lambda>args kwargs. Inr (kwargs ''project'', kwargs ''credentials''))
        (Vendor_defined ''google/cloud/bigquery/client.py''))
     [] [''project'' \<mapsto> PyStr []]
   = (Inl (TypeError ''got multiple values for keyword argument''),
      [Log_info public_msg, Print public_msg, New_PublicBigqueryClient])"
  by (simp add: monkeypatch_bq_def get_integrations_unset kwargs_get_def py_or_def getenv_def
        has_bigquery_def KernelIntegrations_def PublicBigqueryClient_init_def)

text \<open>
  C1. Let the wrapper be installed around the library's constructor, and let the registry
  be the one read from the environment. The wrapper looks at the keyword arguments only.
  The constructor of \<open>PublicBigqueryClient\<close> is entered exactly when the \<open>project\<close>
  keyword is absent, \<open>None\<close> or empty and \<open>GOOGLE_CLOUD_PROJECT\<close> is unset, the
  \<open>credentials\<close> keyword is absent or \<open>None\<close>, and the registry lacks BigQuery. When
  that holds for a call that carries neither keyword, the wrapper logs and prints that the
  public integration is in use and calls the library's constructor with the caller's
  positional arguments and keywords, the proxy project of the environment as \<open>project\<close>
  and anonymous credentials with the no-op refresh as \<open>credentials\<close>: if that
  constructor returns, the result is a \<open>PublicBigqueryClient\<close> around what it returned,
  with the proxy connection; if it raises (as it does when a positional argument already
  fills one of the two parameters), the wrapper raises the same exception. In every other
  case the wrapper calls the library's constructor, with the caller's positional
  arguments and with keywords that differ from the caller's in \<open>project\<close> and
  \<open>credentials\<close> at most, and returns its client as a plain client or raises its
  exception; the constructor of \<open>PublicBigqueryClient\<close> is not entered. Where the public routing is taken, no \<open>KaggleKernelCredentials\<close> is
  constructed.
\<close>

theorem public_routing:
  assumes "get_integrations py environ = (Inr ki, logs)"
  shows
   "(New_PublicBigqueryClient \<in> set (snd (monkeypatch_bq py environ vendor_init
        (call_bigquery_Client py environ vendor_init (Vendor_defined path)) args kwargs))
      \<longleftrightarrow> \<not> truthy (kwargs_get kwargs ''project'') \<and> environ ''GOOGLE_CLOUD_PROJECT'' = None
          \<and> kwargs_get kwargs ''credentials'' = PyNone \<and> \<not> has_bigquery ki)
    \<and> (kwargs ''project'' = None \<and> environ ''GOOGLE_CLOUD_PROJECT'' = None
        \<and> kwargs ''credentials'' = None \<and> \<not> has_bigquery ki \<longrightarrow>
          monkeypatch_bq py environ vendor_init
            (call_bigquery_Client py environ vendor_init (Vendor_defined path)) args kwargs
          = (case vendor_init args
                    (kwargs(''project'' \<mapsto> getenv environ ''KAGGLE_DATA_PROXY_PROJECT'',
                            ''credentials'' \<mapsto> PyCred (AnonymousCredentials Noop_refresh))) of
               Inl e \<Rightarrow> Inl e
             | Inr v \<Rightarrow> Inr (PublicBigqueryClient v (DataProxyConnection_init environ)),
             logs @ [Log_info public_msg, Print public_msg, New_PublicBigqueryClient]))
    \<and> (\<not> (\<not> truthy (kwargs_get kwargs ''project'') \<and> environ ''GOOGLE_CLOUD_PROJECT'' = None
            \<and> kwargs_get kwargs ''credentials'' = PyNone \<and> \<not> has_bigquery ki) \<longrightarrow>
          (\<exists>kwargs'. (\<forall>k. k \<noteq> ''project'' \<and> k \<noteq> ''credentials'' \<longrightarrow> kwargs' k = kwargs k)
             \<and> fst (monkeypatch_bq py environ vendor_init
                 (call_bigquery_Client py environ vendor_init (Vendor_defined path)) args kwargs)
               = (case vendor_init args kwargs' of
                    Inl e \<Rightarrow> Inl e
                  | Inr v \<Rightarrow> Inr (Client v))))
    \<and> (\<not> truthy (kwargs_get kwargs ''project'') \<and> environ ''GOOGLE_CLOUD_PROJECT'' = None
        \<and> kwargs_get kwargs ''credentials'' = PyNone \<and> \<not> has_bigquery ki \<longrightarrow>
          (\<forall>t. New_KaggleKernelCredentials t \<notin> set (snd (monkeypatch_bq py environ vendor_init
                 (call_bigquery_Client py environ vendor_init (Vendor_defined path)) args kwargs))))"
proof -
  let ?orig = "call_bigquery_Client py environ vendor_init (Vendor_defined path)"
  let ?cond = "\<not> truthy (kwargs_get kwargs ''project'') \<and> environ ''GOOGLE_CLOUD_PROJECT'' = None
          \<and> kwargs_get kwargs ''credentials'' = PyNone \<and> \<not> has_bigquery ki"
  have lg: "New_PublicBigqueryClient \<notin> set logs"
    using get_integrations_logs [OF assms] by auto
  have lk: "\<forall>t. New_KaggleKernelCredentials t \<notin> set logs"
    using get_integrations_logs [OF assms] by auto
  have pub: "?cond \<Longrightarrow>
      New_PublicBigqueryClient \<in> set (snd (monkeypatch_bq py environ vendor_init ?orig args kwargs))"
    using monkeypatch_bq_public [OF assms, of kwargs vendor_init ?orig args]
      PublicBigqueryClient_init_events [of environ vendor_init args kwargs]
    by simp
  have nok: "?cond \<Longrightarrow>
      \<forall>t. New_KaggleKernelCredentials t
             \<notin> set (snd (monkeypatch_bq py environ vendor_init ?orig args kwargs))"
    using monkeypatch_bq_public [OF assms, of kwargs vendor_init ?orig args]
      PublicBigqueryClient_init_events [of environ vendor_init args kwargs] lk
    by simp
  have oth: "\<not> ?cond \<Longrightarrow>
      New_PublicBigqueryClient \<notin> set (snd (monkeypatch_bq py environ vendor_init ?orig args kwargs))
      \<and> (\<exists>kwargs'. (\<forall>k. k \<noteq> ''project'' \<and> k \<noteq> ''credentials'' \<longrightarrow> kwargs' k = kwargs k)
             \<and> fst (monkeypatch_bq py environ vendor_init ?orig args kwargs)
               = (case vendor_init args kwargs' of
                    Inl e \<Rightarrow> Inl e
                  | Inr v \<Rightarrow> Inr (Client v)))"
  proof -
    assume n: "\<not> ?cond"
    from monkeypatch_bq_other [OF assms n, of vendor_init ?orig args]
    obtain evs kwargs' where
      r: "monkeypatch_bq py environ vendor_init ?orig args kwargs =
             (fst (?orig args kwargs'), logs @ evs @ snd (?orig args kwargs'))"
      and e: "New_PublicBigqueryClient \<notin> set evs"
      and o: "\<forall>k. k \<noteq> ''project'' \<and> k \<noteq> ''credentials'' \<longrightarrow> kwargs' k = kwargs k"
      by blast
    have "New_PublicBigqueryClient
            \<notin> set (snd (monkeypatch_bq py environ vendor_init ?orig args kwargs))"
      unfolding r using e lg by (simp split: sum.splits)
    moreover have "fst (monkeypatch_bq py environ vendor_init ?orig args kwargs)
               = (case vendor_init args kwargs' of
                    Inl e \<Rightarrow> Inl e
                  | Inr v \<Rightarrow> Inr (Client v))"
      unfolding r by (simp split: sum.splits)
    ultimately show ?thesis using o by blast
  qed
  have built: "kwargs ''project'' = None \<and> environ ''GOOGLE_CLOUD_PROJECT'' = None
        \<and> kwargs ''credentials'' = None \<and> \<not> has_bigquery ki \<Longrightarrow>
          monkeypatch_bq py environ vendor_init ?orig args kwargs
          = (case vendor_init args
                    (kwargs(''project'' \<mapsto> getenv environ ''KAGGLE_DATA_PROXY_PROJECT'',
                            ''credentials'' \<mapsto> PyCred (AnonymousCredentials Noop_refresh))) of
               Inl e \<Rightarrow> Inl e
             | Inr v \<Rightarrow> Inr (PublicBigqueryClient v (DataProxyConnection_init environ)),
             logs @ [Log_info public_msg, Print public_msg, New_PublicBigqueryClient])"
  proof -
    assume h: "kwargs ''project'' = None \<and> environ ''GOOGLE_CLOUD_PROJECT'' = None
        \<and> kwargs ''credentials'' = None \<and> \<not> has_bigquery ki"
    then have k: "kwargs_get kwargs ''project'' = PyNone" "kwargs_get kwargs ''credentials'' = PyNone"
      by (simp_all add: kwargs_get_def)
    show ?thesis
      using monkeypatch_bq_public [OF assms, of kwargs vendor_init ?orig args] h k
        PublicBigqueryClient_init_no_keys [of kwargs environ vendor_init args]
      by (simp split: sum.splits)
  qed
  show ?thesis
    using pub oth built nok by blast
qed

theorem public_routing_witness:
  "get_integrations ascii_python (Map.empty(''KAGGLE_DATA_PROXY_PROJECT'' \<mapsto> ''kaggle-proxy''))
     = (Inr KernelIntegrations, [])
   \<and> monkeypatch_bq ascii_python (Map.empty(''KAGGLE_DATA_PROXY_PROJECT'' \<mapsto> ''kaggle-proxy''))
       (\<lambda>args kwargs. Inr (kwargs ''project'', kwargs ''credentials''))
       (call_bigquery_Client ascii_python
          (Map.empty(''KAGGLE_DATA_PROXY_PROJECT'' \<mapsto> ''kaggle-proxy''))
          (\<lambda>args kwargs. Inr (kwargs ''project'', kwargs ''credentials''))
          (Vendor_defined ''google/cloud/bigquery/client.py''))
       [] Map.empty
     = (Inr (PublicBigqueryClient
               (Some (PyStr ''kaggle-proxy''), Some (PyCred (AnonymousCredentials Noop_refresh)))
               (DataProxyConnection_init (Map.empty(''KAGGLE_DATA_PROXY_PROJECT'' \<mapsto> ''kaggle-proxy'')))),
        [Log_info public_msg, Print public_msg, New_PublicBigqueryClient])
   \<and> New_PublicBigqueryClient \<notin> set (snd
        (monkeypatch_bq ascii_python (Map.empty(''KAGGLE_DATA_PROXY_PROJECT'' \<mapsto> ''kaggle-proxy''))
          (\<lambda>args kwargs. Inr (kwargs ''project'', kwargs ''credentials''))
          (call_bigquery_Client ascii_python
             (Map.empty(''KAGGLE_DATA_PROXY_PROJECT'' \<mapsto> ''kaggle-proxy''))
             (\<lambda>args kwargs. Inr (kwargs ''project'', kwargs ''credentials''))
             (Vendor_defined ''google/cloud/bigquery/client.py''))
          [] [''project'' \<mapsto> PyStr ''my-project'']))"
proof -
  let ?E = "Map.empty(''KAGGLE_DATA_PROXY_PROJECT'' \<mapsto> ''kaggle-proxy'')"
  let ?V = "\<lambda>(args :: pyval list) (kwargs :: kwargs).
              (Inr (kwargs ''project'', kwargs ''credentials'') :: exn + pyval option \<times> pyval option)"
  have g: "get_integrations ascii_python ?E = (Inr KernelIntegrations, [])"
    by (simp add: get_integrations_unset)
  have nb: "\<not> has_bigquery KernelIntegrations"
    by (simp add: has_bigquery_def KernelIntegrations_def)
  have a: "monkeypatch_bq ascii_python ?E ?V
            (call_bigquery_Client ascii_python ?E ?V
               (Vendor_defined ''google/cloud/bigquery/client.py''))
            [] Map.empty
     = (Inr (PublicBigqueryClient
               (Some (PyStr ''kaggle-proxy''), Some (PyCred (AnonymousCredentials Noop_refresh)))
               (DataProxyConnection_init ?E)),
        [Log_info public_msg, Print public_msg, New_PublicBigqueryClient])"
    using public_routing [OF g, where vendor_init = ?V
        and path = "''google/cloud/bigquery/client.py''" and args = "[]" and kwargs = Map.empty] nb
    by (simp add: getenv_def)
  have b: "New_PublicBigqueryClient \<notin> set (snd
        (monkeypatch_bq ascii_python ?E ?V
          (call_bigquery_Client ascii_python ?E ?V
             (Vendor_defined ''google/cloud/bigquery/client.py''))
          [] [''project'' \<mapsto> PyStr ''my-project'']))"
    using public_routing [OF g, where vendor_init = ?V
        and path = "''google/cloud/bigquery/client.py''" and args = "[]"
        and kwargs = "[''project'' \<mapsto> PyStr ''my-project'']"]
    by (simp add: kwargs_get_def)
  show ?thesis using g a b by simp
qed

text \<open>
  The call \<open>storage.Client('my-project', credentials)\<close>, the caller's credentials in
  the second position: the wrapper finds no \<open>credentials\<close> keyword, constructs a
  \<open>KaggleKernelCredentials\<close> for GCS and passes it on as the \<open>credentials\<close> keyword, next
  to the caller's positional arguments.
\<close>

theorem explicit_credentials_counterexample:
  "monkeypatch_gcs (\<lambda>args kwargs. (Inr (args, kwargs ''credentials''), []))
     [PyStr ''my-project'', PyCred (CallerCredentials 7)] Map.empty
   = (Inr ([PyStr ''my-project'', PyCred (CallerCredentials 7)],
           Some (PyCred (KaggleKernelCredentials
                   \<lparr>target = GCS, token = None, expiry = None\<rparr>))),
      [Log_info ''No credentials specified, using KaggleKernelCredentials.'',
       New_KaggleKernelCredentials GCS])"
  by (simp add: monkeypatch_gcs_def kwargs_get_def KaggleKernelCredentials_init_def)

text \<open>
  C6. When the caller passes credentials by keyword (any value but \<open>None\<close>), the wrapper
  of the BigQuery constructor calls the constructor it wraps with keyword arguments that
  hold the same credentials and differ from the caller's in \<open>project\<close> at most; it
  enters the constructor of neither \<open>KaggleKernelCredentials\<close> nor
  \<open>PublicBigqueryClient\<close>. The wrapper of the storage constructor calls the constructor
  it wraps with the caller's arguments as they are and does nothing else. Neither
  depends on the registry or on the project.
\<close>

theorem explicit_credentials_unchanged:
  assumes "kwargs ''credentials'' = Some c" and "c \<noteq> PyNone"
  shows "(\<exists>evs kwargs'.
            monkeypatch_bq py environ vendor_init bq_client args kwargs =
              (fst (bq_client args kwargs'), evs @ snd (bq_client args kwargs'))
          \<and> kwargs' ''credentials'' = Some c
          \<and> (\<forall>k. k \<noteq> ''project'' \<longrightarrow> kwargs' k = kwargs k)
          \<and> (\<forall>t. New_KaggleKernelCredentials t \<notin> set evs)
          \<and> New_PublicBigqueryClient \<notin> set evs)
       \<and> monkeypatch_gcs gcs_client_init args kwargs = gcs_client_init args kwargs"
proof -
  obtain ki logs where g: "get_integrations py environ = (Inr ki, logs)"
    using get_integrations_Inr by blast
  have k: "kwargs_get kwargs ''credentials'' = c"
    using assms(1) by (simp add: kwargs_get_def)
  then have n: "\<not> (\<not> truthy (kwargs_get kwargs ''project'')
            \<and> environ ''GOOGLE_CLOUD_PROJECT'' = None
            \<and> kwargs_get kwargs ''credentials'' = PyNone \<and> \<not> has_bigquery ki)"
    using assms(2) by simp
  from monkeypatch_bq_other [OF g n, of vendor_init bq_client args]
  obtain evs kwargs' where
    r: "monkeypatch_bq py environ vendor_init bq_client args kwargs =
          (fst (bq_client args kwargs'), logs @ evs @ snd (bq_client args kwargs'))"
    and e: "New_PublicBigqueryClient \<notin> set evs"
    and c: "kwargs' ''credentials'' = kwargs ''credentials''"
           "\<forall>t. New_KaggleKernelCredentials t \<notin> set evs"
    and o: "\<forall>k. k \<noteq> ''project'' \<and> k \<noteq> ''credentials'' \<longrightarrow> kwargs' k = kwargs k"
    using k assms(2) by auto
  have lg: "New_PublicBigqueryClient \<notin> set logs" "\<forall>t. New_KaggleKernelCredentials t \<notin> set logs"
    using get_integrations_logs [OF g] by auto
  have "monkeypatch_bq py environ vendor_init bq_client args kwargs =
              (fst (bq_client args kwargs'), (logs @ evs) @ snd (bq_client args kwargs'))"
    using r by simp
  moreover have "kwargs' ''credentials'' = Some c"
    using c(1) assms(1) by simp
  moreover have "\<forall>k. k \<noteq> ''project'' \<longrightarrow> kwargs' k = kwargs k"
    using o c(1) by auto
  moreover have "\<forall>t. New_KaggleKernelCredentials t \<notin> set (logs @ evs)"
    using c(2) lg(2) by simp
  moreover have "New_PublicBigqueryClient \<notin> set (logs @ evs)"
    using e lg(1) by simp
  ultimately have bq: "\<exists>evs kwargs'.
            monkeypatch_bq py environ vendor_init bq_client args kwargs =
              (fst (bq_client args kwargs'), evs @ snd (bq_client args kwargs'))
          \<and> kwargs' ''credentials'' = Some c
          \<and> (\<forall>k. k \<noteq> ''project'' \<longrightarrow> kwargs' k = kwargs k)
          \<and> (\<forall>t. New_KaggleKernelCredentials t \<notin> set evs)
          \<and> New_PublicBigqueryClient \<notin> set evs"
    by blast
  have "monkeypatch_gcs gcs_client_init args kwargs = gcs_client_init args kwargs"
    using k assms(2) by (simp add: monkeypatch_gcs_def)
  with bq show ?thesis by blast
qed

theorem explicit_credentials_unchanged_witness:
  "[''credentials'' \<mapsto> PyCred (CallerCredentials 7)] ''credentials''
     = Some (PyCred (CallerCredentials 7))
   \<and> PyCred (CallerCredentials 7) \<noteq> PyNone
   \<and> fst (monkeypatch_bq ascii_python Map.empty (\<lambda>args kwargs. Inr (kwargs ''credentials''))
        (\<lambda>args kwargs. (Inr (Client (kwargs ''credentials'')), [])) []
        [''credentials'' \<mapsto> PyCred (CallerCredentials 7)])
      = Inr (Client (Some (PyCred (CallerCredentials 7))))
   \<and> monkeypatch_gcs (\<lambda>args kwargs. (Inr (kwargs ''credentials''), [])) []
        [''credentials'' \<mapsto> PyCred (CallerCredentials 7)]
      = (Inr (Some (PyCred (CallerCredentials 7))), [])"
proof -
  let ?K = "[''credentials'' \<mapsto> PyCred (CallerCredentials 7)]"
  have h: "?K ''credentials'' = Some (PyCred (CallerCredentials 7))"
    by simp
  have n: "PyCred (CallerCredentials 7) \<noteq> PyNone"
    by simp
  from explicit_credentials_unchanged [where kwargs = ?K and c = "PyCred (CallerCredentials 7)"
      and py = ascii_python and environ = Map.empty
      and vendor_init = "\<lambda>args kwargs. Inr (kwargs ''credentials'')"
      and bq_client = "\<lambda>args kwargs. (Inr (Client (kwargs ''credentials'')), [])" and args = "[]"
      and gcs_client_init = "\<lambda>args kwargs. (Inr (kwargs ''credentials''), [])"] h n
  show ?thesis by auto
qed

text \<open>
  C9. The call \<open>bigquery.Client(project=None, credentials=None)\<close>, with no default
  project in the environment and an empty registry, and a library constructor that
  accepts every argument: the wrapper prints that the public integration is in use and
  then raises \<open>TypeError\<close>.
\<close>

theorem construction_raises:
  "monkeypatch_bq ascii_python Map.empty
     (\<lambda>args kwargs. Inr (kwargs ''project'', kwargs ''credentials''))
     (call_bigquery_Client ascii_python Map.empty
        (\<lambda>args kwargs. Inr (kwargs ''project'', kwargs ''credentials''))
        (Vendor_defined ''google/cloud/bigquery/client.py''))
     [] [''project'' \<mapsto> PyNone, ''credentials'' \<mapsto> PyNone]
   = (Inl (TypeError ''got multiple values for keyword argument''),
      [Log_info public_msg, Print public_msg, New_PublicBigqueryClient])"
  by (simp add: monkeypatch_bq_def get_integrations_unset kwargs_get_def py_or_def getenv_def
        has_bigquery_def KernelIntegrations_def PublicBigqueryClient_init_def)

text \<open>
  Apart from such calls construction does complete: if the library's constructor accepts
  every argument, a call that does not take the public routing with a \<open>project\<close> or
  \<open>credentials\<close> keyword returns a client.
\<close>

lemma monkeypatch_bq_constructs:
  assumes "get_integrations py environ = (Inr ki, logs)"
    and "\<And>a k. \<exists>v. vendor_init a k = Inr v"
    and "\<not> (\<not> truthy (kwargs_get kwargs ''project'') \<and> environ ''GOOGLE_CLOUD_PROJECT'' = None
            \<and> kwargs_get kwargs ''credentials'' = PyNone \<and> \<not> has_bigquery ki)
         \<or> kwargs ''project'' = None \<and> kwargs ''credentials'' = None"
  shows "\<exists>c. fst (monkeypatch_bq py environ vendor_init
                 (call_bigquery_Client py environ vendor_init (Vendor_defined path)) args kwargs)
             = Inr c"
proof (cases "\<not> truthy (kwargs_get kwargs ''project'') \<and> environ ''GOOGLE_CLOUD_PROJECT'' = None
            \<and> kwargs_get kwargs ''credentials'' = PyNone \<and> \<not> has_bigquery ki")
  case True
  then have k: "kwargs ''project'' = None" "kwargs ''credentials'' = None"
    using assms(3) by auto
  obtain v where v: "vendor_init args
                 (kwargs(''project'' \<mapsto> getenv environ ''KAGGLE_DATA_PROXY_PROJECT'',
                         ''credentials'' \<mapsto> PyCred (AnonymousCredentials Noop_refresh))) = Inr v"
    using assms(2) by blast
  show ?thesis
    using monkeypatch_bq_public [OF assms(1), of kwargs vendor_init _ args] True
      PublicBigqueryClient_init_no_keys [OF k, of environ vendor_init args] v
    by simp
next
  case False
  from monkeypatch_bq_other [OF assms(1) False, of vendor_init
      "call_bigquery_Client py environ vendor_init (Vendor_defined path)" args]
  obtain evs kwargs' where
    r: "monkeypatch_bq py environ vendor_init
          (call_bigquery_Client py environ vendor_init (Vendor_defined path)) args kwargs =
        (fst (call_bigquery_Client py environ vendor_init (Vendor_defined path) args kwargs'),
         logs @ evs
           @ snd (call_bigquery_Client py environ vendor_init (Vendor_defined path) args kwargs'))"
    by blast
  obtain v where "vendor_init args kwargs' = Inr v"
    using assms(2) by blast
  then show ?thesis
    unfolding r by simp
qed

text \<open>
  With the empty string as \<open>project\<close> the project the wrapper resolves is the default
  of the environment: the test is one of truth, not of \<open>None\<close>.
\<close>

lemma empty_project_falls_back:
  assumes "kwargs ''project'' = Some (PyStr [])"
  shows "py_or (kwargs_get kwargs ''project'') (getenv environ ''GOOGLE_CLOUD_PROJECT'')
           = getenv environ ''GOOGLE_CLOUD_PROJECT''"
  using assms by (simp add: kwargs_get_def py_or_def)

text \<open>
  C10. The call \<open>bigquery.Client(project='')\<close>, with no default project in the
  environment, no credentials and an empty registry, and a library constructor that
  accepts every argument: the wrapper takes the public routing and then raises
  \<open>TypeError\<close>, since the empty \<open>project\<close> keyword reaches the library's constructor
  next to the proxy project. The same call without the keyword returns the public client:
  the empty string is not treated as no project given.
\<close>

theorem empty_project_argument_raises:
  "monkeypatch_bq ascii_python [''KAGGLE_DATA_PROXY_PROJECT'' \<mapsto> ''kaggle-proxy'']
     (\<lambda>args kwargs. Inr (kwargs ''project''))
     (call_bigquery_Client ascii_python [''KAGGLE_DATA_PROXY_PROJECT'' \<mapsto> ''kaggle-proxy'']
        (\<lambda>args kwargs. Inr (kwargs ''project''))
        (Vendor_defined ''google/cloud/bigquery/client.py''))
     [] [''project'' \<mapsto> PyStr []]
   = (Inl (TypeError ''got multiple values for keyword argument''),
      [Log_info public_msg, Print public_msg, New_PublicBigqueryClient])
   \<and> monkeypatch_bq ascii_python [''KAGGLE_DATA_PROXY_PROJECT'' \<mapsto> ''kaggle-proxy'']
     (\<lambda>args kwargs. Inr (kwargs ''project''))
     (call_bigquery_Client ascii_python [''KAGGLE_DATA_PROXY_PROJECT'' \<mapsto> ''kaggle-proxy'']
        (\<lambda>args kwargs. Inr (kwargs ''project''))
        (Vendor_defined ''google/cloud/bigquery/client.py''))
     [] Map.empty
   = (Inr (PublicBigqueryClient (Some (PyStr ''kaggle-proxy''))
             (DataProxyConnection_init [''KAGGLE_DATA_PROXY_PROJECT'' \<mapsto> ''kaggle-proxy''])),
      [Log_info public_msg, Print public_msg, New_PublicBigqueryClient])"
  by (simp add: monkeypatch_bq_def get_integrations_unset kwargs_get_def py_or_def getenv_def
        has_bigquery_def KernelIntegrations_def PublicBigqueryClient_init_def)

section \<open>Installing the wrappers twice\<close>

lemma init_bigquery_result:
  assumes "get_integrations py environ = (Inr ki, logs)"
  shows "init_bigquery py kaggle_gcp_file environ m =
    (if environ ''KAGGLE_DATA_PROXY_TOKEN'' = None \<and> environ ''KAGGLE_USER_SECRETS_TOKEN'' = None
     then (Inr m, [])
     else (Inr ((if has_bigquery ki
                 then m\<lparr>magics_context_credentials :=
                          Some (KaggleKernelCredentials \<lparr>target = BIGQUERY, token = None, expiry = None\<rparr>)\<rparr>
                 else m)
                \<lparr>bigquery_Client :=
                    if has_been_monkeypatched kaggle_gcp_file (bigquery_Client m)
                    then bigquery_Client m else Kaggle_gcp_defined (bigquery_Client m)\<rparr>),
           logs @ (if has_bigquery ki then [New_KaggleKernelCredentials BIGQUERY] else [])))"
  using assms
  by (simp add: init_bigquery_def KaggleKernelCredentials_init_def Let_def io_return_def)

lemma init_gcs_result:
  assumes "get_integrations py environ = (Inr ki, logs)"
  shows "init_gcs py kaggle_gcp_file environ m =
    (if environ ''KAGGLE_USER_SECRETS_TOKEN'' = None then (Inr m, [])
     else (Inr (if has_gcs ki \<and> \<not> has_been_monkeypatched kaggle_gcp_file (storage_Client_init m)
                then m\<lparr>storage_Client_init := Kaggle_gcp_defined (storage_Client_init m)\<rparr>
                else m),
           logs))"
  using assms
  by (simp add: init_gcs_def Let_def io_return_def)

lemma has_been_monkeypatched_wrapper:
  "sublist ''kaggle_gcp'' kaggle_gcp_file \<Longrightarrow>
   has_been_monkeypatched kaggle_gcp_file (Kaggle_gcp_defined f)"
  by (simp add: has_been_monkeypatched_def)

lemma init_result:
  assumes "get_integrations py environ = (Inr ki, logs)"
  shows "\<exists>m' evs. init py kaggle_gcp_file environ m = (Inr m', evs)
    \<and> bigquery_Client m' =
        (if (environ ''KAGGLE_DATA_PROXY_TOKEN'' \<noteq> None \<or> environ ''KAGGLE_USER_SECRETS_TOKEN'' \<noteq> None)
            \<and> \<not> has_been_monkeypatched kaggle_gcp_file (bigquery_Client m)
         then Kaggle_gcp_defined (bigquery_Client m) else bigquery_Client m)
    \<and> storage_Client_init m' =
        (if environ ''KAGGLE_USER_SECRETS_TOKEN'' \<noteq> None \<and> has_gcs ki
            \<and> \<not> has_been_monkeypatched kaggle_gcp_file (storage_Client_init m)
         then Kaggle_gcp_defined (storage_Client_init m) else storage_Client_init m)
    \<and> magics_context_credentials m' =
        (if (environ ''KAGGLE_DATA_PROXY_TOKEN'' \<noteq> None \<or> environ ''KAGGLE_USER_SECRETS_TOKEN'' \<noteq> None)
            \<and> has_bigquery ki
         then Some (KaggleKernelCredentials \<lparr>target = BIGQUERY, token = None, expiry = None\<rparr>)
         else magics_context_credentials m)"
  by (cases m) (auto simp: init_def init_bigquery_result [OF assms] init_gcs_result [OF assms])

text \<open>
  C5. Let the file of this module have \<open>kaggle_gcp\<close> in its path. Running \<open>init\<close>
  (that is \<open>init_bigquery\<close>, then \<open>init_gcs\<close>) on any state of the library modules
  succeeds, and running it again on the result succeeds and changes nothing. If the
  BigQuery slot held the library's constructor (whose file does not have \<open>kaggle_gcp\<close>
  in its path) and one of the two tokens is set, the slot then holds one wrapper
  directly around that constructor, so that a call through the slot is one call of
  \<open>monkeypatch_bq\<close> around the library's constructor. The same holds for the storage
  slot when the user secrets token is set and the registry has GCS.
\<close>

theorem init_twice:
  assumes "sublist ''kaggle_gcp'' kaggle_gcp_file"
    and "get_integrations py environ = (Inr ki, logs)"
  shows "\<exists>m1 evs1 evs2.
      init py kaggle_gcp_file environ m = (Inr m1, evs1)
    \<and> init py kaggle_gcp_file environ m1 = (Inr m1, evs2)
    \<and> (bigquery_Client m = Vendor_defined p \<and> \<not> sublist ''kaggle_gcp'' p
        \<and> (environ ''KAGGLE_DATA_PROXY_TOKEN'' \<noteq> None \<or> environ ''KAGGLE_USER_SECRETS_TOKEN'' \<noteq> None)
        \<longrightarrow> bigquery_Client m1 = Kaggle_gcp_defined (Vendor_defined p)
          \<and> call_bigquery_Client py environ vendor_init (bigquery_Client m1)
            = monkeypatch_bq py environ vendor_init
                (call_bigquery_Client py environ vendor_init (Vendor_defined p)))
    \<and> (storage_Client_init m = Vendor_defined q \<and> \<not> sublist ''kaggle_gcp'' q
        \<and> environ ''KAGGLE_USER_SECRETS_TOKEN'' \<noteq> None \<and> has_gcs ki
        \<longrightarrow> storage_Client_init m1 = Kaggle_gcp_defined (Vendor_defined q)
          \<and> call_storage_Client_init gcs_vendor_init (storage_Client_init m1)
            = monkeypatch_gcs (call_storage_Client_init gcs_vendor_init (Vendor_defined q)))"
proof -
  let ?A = "environ ''KAGGLE_DATA_PROXY_TOKEN'' \<noteq> None \<or> environ ''KAGGLE_USER_SECRETS_TOKEN'' \<noteq> None"
  let ?G = "environ ''KAGGLE_USER_SECRETS_TOKEN'' \<noteq> None \<and> has_gcs ki"
  from init_result [OF assms(2), of kaggle_gcp_file m]
  obtain m1 evs1 where 1: "init py kaggle_gcp_file environ m = (Inr m1, evs1)"
    and b1: "bigquery_Client m1 =
        (if ?A \<and> \<not> has_been_monkeypatched kaggle_gcp_file (bigquery_Client m)
         then Kaggle_gcp_defined (bigquery_Client m) else bigquery_Client m)"
    and s1: "storage_Client_init m1 =
        (if ?G \<and> \<not> has_been_monkeypatched kaggle_gcp_file (storage_Client_init m)
         then Kaggle_gcp_defined (storage_Client_init m) else storage_Client_init m)"
    and c1: "magics_context_credentials m1 =
        (if ?A \<and> has_bigquery ki
         then Some (KaggleKernelCredentials \<lparr>target = BIGQUERY, token = None, expiry = None\<rparr>)
         else magics_context_credentials m)"
    by auto
  from init_result [OF assms(2), of kaggle_gcp_file m1]
  obtain m2 evs2 where 2: "init py kaggle_gcp_file environ m1 = (Inr m2, evs2)"
    and b2: "bigquery_Client m2 =
        (if ?A \<and> \<not> has_been_monkeypatched kaggle_gcp_file (bigquery_Client m1)
         then Kaggle_gcp_defined (bigquery_Client m1) else bigquery_Client m1)"
    and s2: "storage_Client_init m2 =
        (if ?G \<and> \<not> has_been_monkeypatched kaggle_gcp_file (storage_Client_init m1)
         then Kaggle_gcp_defined (storage_Client_init m1) else storage_Client_init m1)"
    and c2: "magics_context_credentials m2 =
        (if ?A \<and> has_bigquery ki
         then Some (KaggleKernelCredentials \<lparr>target = BIGQUERY, token = None, expiry = None\<rparr>)
         else magics_context_credentials m1)"
    by auto
  have w: "\<And>f. has_been_monkeypatched kaggle_gcp_file (Kaggle_gcp_defined f)"
    using assms(1) by (rule has_been_monkeypatched_wrapper)
  have "bigquery_Client m2 = bigquery_Client m1"
    unfolding b2 by (simp add: b1 w)
  moreover have "storage_Client_init m2 = storage_Client_init m1"
    unfolding s2 by (simp add: s1 w)
  moreover have "magics_context_credentials m2 = magics_context_credentials m1"
    unfolding c2 by (simp add: c1)
  ultimately have "m2 = m1"
    by simp
  with 2 have 2: "init py kaggle_gcp_file environ m1 = (Inr m1, evs2)"
    by simp
  have 3: "bigquery_Client m1 = Kaggle_gcp_defined (Vendor_defined p)
          \<and> call_bigquery_Client py environ vendor_init (bigquery_Client m1)
            = monkeypatch_bq py environ vendor_init
                (call_bigquery_Client py environ vendor_init (Vendor_defined p))"
    if "bigquery_Client m = Vendor_defined p \<and> \<not> sublist ''kaggle_gcp'' p \<and> ?A"
    using that by (simp add: b1 has_been_monkeypatched_def)
  have 4: "storage_Client_init m1 = Kaggle_gcp_defined (Vendor_defined q)
          \<and> call_storage_Client_init gcs_vendor_init (storage_Client_init m1)
            = monkeypatch_gcs (call_storage_Client_init gcs_vendor_init (Vendor_defined q))"
    if "storage_Client_init m = Vendor_defined q \<and> \<not> sublist ''kaggle_gcp'' q \<and> ?G"
    using that by (simp add: s1 has_been_monkeypatched_def)
  show ?thesis
    using 1 2 3 4 by blast
qed

theorem init_twice_witness:
  "sublist ''kaggle_gcp'' ''/opt/kaggle/kaggle_gcp.py''
   \<and> bigquery_Client (projr (fst (init ascii_python ''/opt/kaggle/kaggle_gcp.py''
        [''KAGGLE_USER_SECRETS_TOKEN'' \<mapsto> ''t'', ''KAGGLE_KERNEL_INTEGRATIONS'' \<mapsto> ''gcs'']
        (projr (fst (init ascii_python ''/opt/kaggle/kaggle_gcp.py''
           [''KAGGLE_USER_SECRETS_TOKEN'' \<mapsto> ''t'', ''KAGGLE_KERNEL_INTEGRATIONS'' \<mapsto> ''gcs'']
           \<lparr>bigquery_Client = Vendor_defined ''google/cloud/bigquery/client.py'',
            storage_Client_init = Vendor_defined ''google/cloud/storage/client.py'',
            magics_context_credentials = None\<rparr>))))))
     = Kaggle_gcp_defined (Vendor_defined ''google/cloud/bigquery/client.py'')
   \<and> storage_Client_init (projr (fst (init ascii_python ''/opt/kaggle/kaggle_gcp.py''
        [''KAGGLE_USER_SECRETS_TOKEN'' \<mapsto> ''t'', ''KAGGLE_KERNEL_INTEGRATIONS'' \<mapsto> ''gcs'']
        (projr (fst (init ascii_python ''/opt/kaggle/kaggle_gcp.py''
           [''KAGGLE_USER_SECRETS_TOKEN'' \<mapsto> ''t'', ''KAGGLE_KERNEL_INTEGRATIONS'' \<mapsto> ''gcs'']
           \<lparr>bigquery_Client = Vendor_defined ''google/cloud/bigquery/client.py'',
            storage_Client_init = Vendor_defined ''google/cloud/storage/client.py'',
            magics_context_credentials = None\<rparr>))))))
     = Kaggle_gcp_defined (Vendor_defined ''google/cloud/storage/client.py'')"
proof -
  let ?F = "''/opt/kaggle/kaggle_gcp.py''"
  let ?E = "[''KAGGLE_USER_SECRETS_TOKEN'' \<mapsto> ''t'', ''KAGGLE_KERNEL_INTEGRATIONS'' \<mapsto> ''gcs'']"
  let ?M = "\<lparr>bigquery_Client = Vendor_defined ''google/cloud/bigquery/client.py'',
            storage_Client_init = Vendor_defined ''google/cloud/storage/client.py'',
            magics_context_credentials = None\<rparr>"
  have f: "sublist ''kaggle_gcp'' ?F"
    by code_simp
  have p: "\<not> sublist ''kaggle_gcp'' ''google/cloud/bigquery/client.py''"
    by code_simp
  have q: "\<not> sublist ''kaggle_gcp'' ''google/cloud/storage/client.py''"
    by code_simp
  have u0: "ascii_upper ''gcs'' = ''GCS''"
    by code_simp
  have u: "str_upper ascii_python ''gcs'' = ''GCS''"
    by (simp add: ascii_python_def u0)
  have g: "get_integrations ascii_python ?E = (Inr (add_integration KernelIntegrations GCS), [])"
    by (simp add: get_integrations_def GcpTarget_getitem_def u io_return_def)
  have h: "has_gcs (add_integration KernelIntegrations GCS)"
    by (simp add: has_gcs_def add_integration_def)
  from init_twice [OF f g, where m = ?M and p = "''google/cloud/bigquery/client.py''"
      and q = "''google/cloud/storage/client.py''"
      and vendor_init = "\<lambda>args kwargs. Inr ()" and gcs_vendor_init = "\<lambda>args kwargs. Inr ()"] p q h
  obtain m1 evs1 evs2 where
    1: "init ascii_python ?F ?E ?M = (Inr m1, evs1)" and 2: "init ascii_python ?F ?E m1 = (Inr m1, evs2)"
    and 3: "bigquery_Client m1 = Kaggle_gcp_defined (Vendor_defined ''google/cloud/bigquery/client.py'')"
    and 4: "storage_Client_init m1 = Kaggle_gcp_defined (Vendor_defined ''google/cloud/storage/client.py'')"
    by auto
  show ?thesis
    using f by (simp add: 1 2 3 4)
qed

end
